theory Spec2Isabelle
  imports Main "HOL-Library.Word" "HOL-Library.Multiset" "HOL-Library.List_Lexorder"
    "HOL-Library.Char_ord"
begin

section \<open>Strings and time values\<close>

text \<open>
  A TypeScript string is a sequence of UTF-16 code units; \<open>title.length\<close> counts code
  units. A \<open>Date\<close> is its time value, the milliseconds since the epoch; the comparison
  \<open>a < b\<close> of two dates compares the time values. The invalid date (time value NaN) is
  outside the model. The clock read by \<open>new Date()\<close> is a parameter \<open>now\<close> of every
  function that reads it.
\<close>

type_synonym jsstring = "16 word list"
type_synonym timestamp = int

text \<open>
  \<open>String.prototype.trim\<close> removes leading and trailing white space and line
  terminators: TAB, LF, VT, FF, CR, SP, NBSP, U+1680, U+2000 to U+200A, U+2028, U+2029,
  U+202F, U+205F, U+3000 and U+FEFF.
\<close>

definition isWhiteSpace :: "16 word \<Rightarrow> bool" where
  "isWhiteSpace c \<longleftrightarrow>
     c = 0x09 \<or> c = 0x0A \<or> c = 0x0B \<or> c = 0x0C \<or> c = 0x0D \<or> c = 0x20 \<or> c = 0xA0 \<or>
     c = 0x1680 \<or> (0x2000 \<le> c \<and> c \<le> 0x200A) \<or> c = 0x2028 \<or> c = 0x2029 \<or>
     c = 0x202F \<or> c = 0x205F \<or> c = 0x3000 \<or> c = 0xFEFF"

definition trim :: "jsstring \<Rightarrow> jsstring" where
  "trim s = rev (dropWhile isWhiteSpace (rev (dropWhile isWhiteSpace s)))"

text \<open>A string is blank when it is empty or holds white space only.\<close>

definition blank :: "jsstring \<Rightarrow> bool" where
  "blank s \<longleftrightarrow> (\<forall>c \<in> set s. isWhiteSpace c)"

text \<open>
  The database holds text as UTF-8. When the \<open>sqlite3\<close> binding binds a string to a
  statement parameter it converts the string to UTF-8, and a surrogate code unit that is
  not part of a pair (a high surrogate followed by a low one) becomes U+FFFD; every other
  code unit, and every pair, is kept. \<open>bindText s\<close> is the string that the stored text
  reads back as.
\<close>

definition isSurrogate :: "16 word \<Rightarrow> bool" where
  "isSurrogate c \<longleftrightarrow> 0xD800 \<le> c \<and> c \<le> 0xDFFF"

definition isHighSurrogate :: "16 word \<Rightarrow> bool" where
  "isHighSurrogate c \<longleftrightarrow> 0xD800 \<le> c \<and> c \<le> 0xDBFF"

definition isLowSurrogate :: "16 word \<Rightarrow> bool" where
  "isLowSurrogate c \<longleftrightarrow> 0xDC00 \<le> c \<and> c \<le> 0xDFFF"

fun bindText :: "jsstring \<Rightarrow> jsstring" where
  "bindText [] = []"
| "bindText [c] = [if isSurrogate c then 0xFFFD else c]"
| "bindText (c # d # cs) =
     (if isHighSurrogate c \<and> isLowSurrogate d then c # d # bindText cs
      else (if isSurrogate c then 0xFFFD else c) # bindText (d # cs))"

text \<open>
  \<open>Date.prototype.toISOString\<close> writes a time value as
  \<open>YYYY-MM-DDTHH:mm:ss.sssZ\<close> in the proleptic Gregorian calendar, and for a year
  outside 0 to 9999 as a sign and six digits of the year. \<open>civil\<close> gives the year,
  month and day of a day number counted from 1970-01-01.
\<close>

definition digit :: "int \<Rightarrow> char" where
  "digit d = ''0123456789'' ! nat d"

fun pad :: "nat \<Rightarrow> int \<Rightarrow> string" where
  "pad 0 n = []"
| "pad (Suc k) n = pad k (n div 10) @ [digit (n mod 10)]"

definition civil :: "int \<Rightarrow> int \<times> int \<times> int" where
  "civil days =
     (let z = days + 719468;
          era = z div 146097;
          doe = z mod 146097;
          yoe = (doe - doe div 1460 + doe div 36524 - doe div 146096) div 365;
          doy = doe - (365 * yoe + yoe div 4 - yoe div 100);
          mp = (5 * doy + 2) div 153;
          d = doy - (153 * mp + 2) div 5 + 1;
          m = (if mp < 10 then mp + 3 else mp - 9);
          y = yoe + era * 400 + (if m \<le> 2 then 1 else 0)
      in (y, m, d))"

definition toISOString :: "timestamp \<Rightarrow> string" where
  "toISOString t =
     (let (y, m, d) = civil (t div 86400000);
          ms = t mod 86400000;
          year = (if 0 \<le> y \<and> y \<le> 9999 then pad 4 y
                  else (if y < 0 then ''-'' else ''+'') @ pad 6 \<bar>y\<bar>)
      in year @ ''-'' @ pad 2 m @ ''-'' @ pad 2 d @ ''T'' @
         pad 2 (ms div 3600000) @ '':'' @ pad 2 (ms div 60000 mod 60) @ '':'' @
         pad 2 (ms div 1000 mod 60) @ ''.'' @ pad 3 (ms mod 1000) @ ''Z'')"

section \<open>Errors\<close>

text \<open>
  Every \<open>throw\<close> and every rejected promise of the source is a value of \<open>error\<close>:
  \<^item> \<open>EmptyTitle\<close>: "Task title cannot be empty";
  \<^item> \<open>TitleTooLong\<close>: "Task title cannot exceed 255 characters";
  \<^item> \<open>EmptyId\<close>: "Task ID cannot be empty";
  \<^item> \<open>PastDueDate\<close>: "Due date cannot be in the past";
  \<^item> \<open>NotInitialized\<close>: "Database not initialized";
  \<^item> \<open>NotFound id\<close>: "Task with id ... not found";
  \<^item> \<open>DuplicateId\<close>: "Failed to add task: ..." with the engine's message for the violated
    \<open>PRIMARY KEY\<close> constraint on \<open>id\<close>;
  \<^item> \<open>ParseTaskFailed e\<close>: "Failed to parse task: e", raised by \<open>getTaskById\<close>;
  \<^item> \<open>ParseTasksFailed e\<close>: "Failed to parse tasks: e", raised by \<open>getTasks\<close>.
  Faults of the storage engine itself (disk, connection) are not modelled.
\<close>

datatype error =
    EmptyTitle
  | TitleTooLong
  | EmptyId
  | PastDueDate
  | NotInitialized
  | NotFound jsstring
  | DuplicateId
  | ParseTaskFailed error
  | ParseTasksFailed error

section \<open>The Task entity\<close>

record Task =
  task_id :: jsstring
  title :: jsstring
  description :: jsstring
  completed :: bool
  createdAt :: timestamp
  dueDate :: "timestamp option"

text \<open>\<open>!title || title.trim().length === 0\<close>, then \<open>title.length > 255\<close>.\<close>

definition validateTitle :: "jsstring \<Rightarrow> error + unit" where
  "validateTitle t =
     (if t = [] \<or> length (trim t) = 0 then Inl EmptyTitle
      else if length t > 255 then Inl TitleTooLong
      else Inr ())"

definition validateId :: "jsstring \<Rightarrow> error + unit" where
  "validateId i = (if i = [] \<or> length (trim i) = 0 then Inl EmptyId else Inr ())"

text \<open>\<open>dueDate && dueDate < new Date()\<close>: \<open>null\<close> is never checked against the clock.\<close>

definition validateDueDate :: "timestamp \<Rightarrow> timestamp option \<Rightarrow> error + unit" where
  "validateDueDate now d =
     (case d of
        None \<Rightarrow> Inr ()
      | Some t \<Rightarrow> if t < now then Inl PastDueDate else Inr ())"

text \<open>
  The constructor, with every argument given (the defaults of the source are \<open>""\<close>,
  \<open>false\<close>, \<open>null\<close> and the clock). The three validations run in the source's order, and
  the first one that throws decides the error; no entity exists then.
\<close>

definition Task_constructor ::
  "timestamp \<Rightarrow> jsstring \<Rightarrow> jsstring \<Rightarrow> jsstring \<Rightarrow> bool \<Rightarrow> timestamp option \<Rightarrow> timestamp
     \<Rightarrow> error + Task" where
  "Task_constructor now i t d c due created =
     (case validateTitle t of
        Inl e \<Rightarrow> Inl e
      | Inr _ \<Rightarrow>
          (case validateId i of
             Inl e \<Rightarrow> Inl e
           | Inr _ \<Rightarrow>
               (case validateDueDate now due of
                  Inl e \<Rightarrow> Inl e
                | Inr _ \<Rightarrow>
                    Inr \<lparr>task_id = i, title = t, description = d, completed = c,
                         createdAt = created, dueDate = due\<rparr>)))"

text \<open>
  The mutators change the entity in place; the model returns the outcome together with
  the entity as it is afterwards. A mutator that throws returns the entity untouched,
  since the source validates before it assigns.
\<close>

definition complete :: "Task \<Rightarrow> Task" where
  "complete t = t\<lparr>completed := True\<rparr>"

definition reopen :: "Task \<Rightarrow> Task" where
  "reopen t = t\<lparr>completed := False\<rparr>"

definition updateTitle :: "jsstring \<Rightarrow> Task \<Rightarrow> (error + unit) \<times> Task" where
  "updateTitle new t =
     (case validateTitle new of
        Inl e \<Rightarrow> (Inl e, t)
      | Inr _ \<Rightarrow> (Inr (), t\<lparr>title := new\<rparr>))"

definition updateDescription :: "jsstring \<Rightarrow> Task \<Rightarrow> Task" where
  "updateDescription new t = t\<lparr>description := new\<rparr>"


definition isOverdue :: "timestamp \<Rightarrow> Task \<Rightarrow> bool" where
  "isOverdue now t =
     (case dueDate t of
        None \<Rightarrow> False
      | Some d \<Rightarrow> if completed t then False else d < now)"

subsection \<open>Date objects and clone\<close>

text \<open>
  A \<open>Date\<close> is a mutable object, and a task holds references to its two dates. Only
  \<open>clone\<close> depends on which object a reference points to, so the objects are modelled
  for it alone: the heap lists the time values of the \<open>Date\<close> objects allocated so far,
  a reference is an index into it, \<open>new Date(v)\<close> appends an object, and a mutator of
  \<open>Date\<close> such as \<open>setTime\<close> overwrites one. References of a live object always point
  into the heap (\<open>refs_ok\<close>). \<open>field_values\<close> reads the six field values of a task object.
\<close>

type_synonym heap = "timestamp list"

definition new_Date :: "timestamp \<Rightarrow> heap \<Rightarrow> nat \<times> heap" where
  "new_Date v h = (length h, h @ [v])"

definition setTime :: "nat \<Rightarrow> timestamp \<Rightarrow> heap \<Rightarrow> heap" where
  "setTime r v h = h[r := v]"

record TaskObject =
  obj_id :: jsstring
  obj_title :: jsstring
  obj_description :: jsstring
  obj_completed :: bool
  obj_createdAt :: nat
  obj_dueDate :: "nat option"

definition refs_ok :: "heap \<Rightarrow> TaskObject \<Rightarrow> bool" where
  "refs_ok h t \<longleftrightarrow>
     obj_createdAt t < length h \<and>
     (case obj_dueDate t of None \<Rightarrow> True | Some r \<Rightarrow> r < length h)"

definition field_values :: "heap \<Rightarrow> TaskObject \<Rightarrow> Task" where
  "field_values h t =
     \<lparr>task_id = obj_id t, title = obj_title t, description = obj_description t,
      completed = obj_completed t, createdAt = h ! obj_createdAt t,
      dueDate = map_option (\<lambda>r. h ! r) (obj_dueDate t)\<rparr>"

text \<open>The constructor on objects: it validates as above and stores the references it is given.\<close>

definition TaskObject_constructor ::
  "timestamp \<Rightarrow> heap \<Rightarrow> jsstring \<Rightarrow> jsstring \<Rightarrow> jsstring \<Rightarrow> bool \<Rightarrow> nat option \<Rightarrow> nat
     \<Rightarrow> error + TaskObject" where
  "TaskObject_constructor now h i t d c due created =
     (case validateTitle t of
        Inl e \<Rightarrow> Inl e
      | Inr _ \<Rightarrow>
          (case validateId i of
             Inl e \<Rightarrow> Inl e
           | Inr _ \<Rightarrow>
               (case validateDueDate now (map_option (\<lambda>r. h ! r) due) of
                  Inl e \<Rightarrow> Inl e
                | Inr _ \<Rightarrow>
                    Inr \<lparr>obj_id = i, obj_title = t, obj_description = d, obj_completed = c,
                         obj_createdAt = created, obj_dueDate = due\<rparr>)))"

text \<open>
  \<open>clone\<close> evaluates its arguments in order, \<open>this.dueDate ? new Date(this.dueDate) : null\<close>
  and then \<open>new Date(this.createdAt)\<close>, and passes the fresh objects to the
  constructor, which validates the copy against the clock.
\<close>

definition clone :: "timestamp \<Rightarrow> TaskObject \<Rightarrow> heap \<Rightarrow> (error + TaskObject) \<times> heap" where
  "clone now t h =
     (let (due, h1) =
            (case obj_dueDate t of
               None \<Rightarrow> (None, h)
             | Some r \<Rightarrow> (let (r', h') = new_Date (h ! r) h in (Some r', h')));
          (created, h2) = new_Date (h1 ! obj_createdAt t) h1
      in (TaskObject_constructor now h2 (obj_id t) (obj_title t) (obj_description t)
            (obj_completed t) due created, h2))"

section \<open>The task store\<close>

text \<open>
  A row of the table \<open>tasks\<close>, as \<open>addTask\<close> and \<open>updateTask\<close> write it. The three
  text columns hold what the binding stores, given as the string it reads back as
  (\<open>bindText\<close> of what was bound); \<open>completed\<close> is the integer 1 or 0. The two
  timestamp columns hold the text of \<open>toISOString()\<close>; a row keeps the time value that
  the text denotes and that \<open>new Date(text)\<close> gives back, and where the engine compares
  the column (\<open>ORDER BY createdAt\<close>) the model compares the texts.
\<close>

record row =
  row_id :: jsstring
  row_title :: jsstring
  row_description :: jsstring
  row_completed :: int
  row_createdAt :: timestamp
  row_dueDate :: "timestamp option"

text \<open>
  The service's field \<open>db\<close>: \<open>None\<close> while it is \<open>null\<close> (before \<open>initialize\<close> and
  after \<open>close\<close>), otherwise the rows of the table in insertion order.
\<close>

type_synonym store = "row list option"

text \<open>
  \<open>INSERT INTO tasks\<close>: the column \<open>id\<close> is the \<open>PRIMARY KEY\<close>, so the engine refuses
  a second row whose id text is present, and writes nothing then. The id, the title and
  the description are bound as text.
\<close>

definition addTask :: "Task \<Rightarrow> store \<Rightarrow> (error + unit) \<times> store" where
  "addTask task s =
     (case s of
        None \<Rightarrow> (Inl NotInitialized, s)
      | Some rows \<Rightarrow>
          if bindText (task_id task) \<in> set (map row_id rows) then (Inl DuplicateId, s)
          else (Inr (),
                Some (rows @
                  [\<lparr>row_id = bindText (task_id task), row_title = bindText (title task),
                    row_description = bindText (description task),
                    row_completed = (if completed task then 1 else 0),
                    row_createdAt = createdAt task,
                    row_dueDate = dueDate task\<rparr>])))"

text \<open>
  \<open>rowToTask\<close> rebuilds the entity with the constructor: \<open>row.description || ""\<close>,
  \<open>row.completed === 1\<close>, and the two dates parsed back from their text.
\<close>

definition rowToTask :: "timestamp \<Rightarrow> row \<Rightarrow> error + Task" where
  "rowToTask now r =
     Task_constructor now (row_id r) (row_title r)
       (if row_description r = [] then [] else row_description r)
       (row_completed r = 1) (row_dueDate r) (row_createdAt r)"

text \<open>\<open>rows.map((row) => this.rowToTask(row))\<close>: the first row that throws ends the map.\<close>

fun map_rowToTask :: "timestamp \<Rightarrow> row list \<Rightarrow> error + Task list" where
  "map_rowToTask now [] = Inr []"
| "map_rowToTask now (r # rs) =
     (case rowToTask now r of
        Inl e \<Rightarrow> Inl e
      | Inr t \<Rightarrow>
          (case map_rowToTask now rs of
             Inl e \<Rightarrow> Inl e
           | Inr ts \<Rightarrow> Inr (t # ts)))"

text \<open>
  \<open>SELECT * FROM tasks ORDER BY createdAt ASC\<close>, then \<open>tasks.reverse()\<close>. The column is
  text, so the engine orders the rows by the ISO text of \<open>createdAt\<close>, byte by byte;
  rows with equal text are taken in insertion order. The rows are converted in one
  synchronous pass, during which the clock is taken to stand still.
\<close>

definition getTasks :: "timestamp \<Rightarrow> store \<Rightarrow> error + Task list" where
  "getTasks now s =
     (case s of
        None \<Rightarrow> Inl NotInitialized
      | Some rows \<Rightarrow>
          (case map_rowToTask now (sort_key (\<lambda>r. toISOString (row_createdAt r)) rows) of
             Inl e \<Rightarrow> Inl (ParseTasksFailed e)
           | Inr tasks \<Rightarrow> Inr (rev tasks)))"

text \<open>
  \<open>SELECT * FROM tasks WHERE id = ?\<close> with the id bound as text; no row resolves to
  \<open>null\<close>, here \<open>Inr None\<close>.
\<close>

definition getTaskById :: "timestamp \<Rightarrow> jsstring \<Rightarrow> store \<Rightarrow> error + Task option" where
  "getTaskById now i s =
     (case s of
        None \<Rightarrow> Inl NotInitialized
      | Some rows \<Rightarrow>
          (case find (\<lambda>r. row_id r = bindText i) rows of
             None \<Rightarrow> Inr None
           | Some r \<Rightarrow>
               (case rowToTask now r of
                  Inl e \<Rightarrow> Inl (ParseTaskFailed e)
                | Inr t \<Rightarrow> Inr (Some t))))"

text \<open>
  The argument \<open>updates\<close>, a partial task, of \<open>updateTask\<close>: each field may be missing
  (\<open>None\<close>); \<open>dueDate\<close>, of type \<open>Date | null\<close>, may also be given as \<open>null\<close>
  (\<open>Some None\<close>). The operator \<open>??\<close> takes its right operand when the left one is
  missing or \<open>null\<close>.
\<close>

record updates =
  upd_title :: "jsstring option"
  upd_description :: "jsstring option"
  upd_completed :: "bool option"
  upd_dueDate :: "timestamp option option"

definition nullish :: "'a option \<Rightarrow> 'a \<Rightarrow> 'a" where
  "nullish x y = (case x of None \<Rightarrow> y | Some v \<Rightarrow> v)"

definition nullish_date :: "timestamp option option \<Rightarrow> timestamp option \<Rightarrow> timestamp option" where
  "nullish_date x y = (case x of Some (Some d) \<Rightarrow> Some d | _ \<Rightarrow> y)"

text \<open>
  \<open>updateTask\<close> reads the clock twice: \<open>now1\<close> when \<open>getTaskById\<close> rebuilds the existing
  row, \<open>now2\<close> when the merged entity is constructed. A rejection of the read is passed
  on as it is; the \<open>UPDATE\<close> statement writes the four columns of the rows with the id,
  with the title, the description and the id bound as text. The constructor is given the
  id as the caller passed it.
\<close>

definition updateTask ::
  "timestamp \<Rightarrow> timestamp \<Rightarrow> jsstring \<Rightarrow> updates \<Rightarrow> store \<Rightarrow> (error + unit) \<times> store" where
  "updateTask now1 now2 i u s =
     (case getTaskById now1 i s of
        Inl e \<Rightarrow> (Inl e, s)
      | Inr None \<Rightarrow> (Inl (NotFound i), s)
      | Inr (Some existingTask) \<Rightarrow>
          (case Task_constructor now2 i
                  (nullish (upd_title u) (title existingTask))
                  (nullish (upd_description u) (description existingTask))
                  (nullish (upd_completed u) (completed existingTask))
                  (nullish_date (upd_dueDate u) (dueDate existingTask))
                  (createdAt existingTask) of
             Inl e \<Rightarrow> (Inl e, s)
           | Inr task \<Rightarrow>
               (case s of
                  None \<Rightarrow> (Inl NotInitialized, s)
                | Some rows \<Rightarrow>
                    (Inr (),
                     Some (map (\<lambda>r. if row_id r = bindText i
                                     then r\<lparr>row_title := bindText (title task),
                                            row_description := bindText (description task),
                                            row_completed := (if completed task then 1 else 0),
                                            row_dueDate := dueDate task\<rparr>
                                     else r) rows)))))"

text \<open>
  \<open>DELETE FROM tasks WHERE id = ?\<close> with the id bound as text; it succeeds whether or
  not a row has the id.
\<close>

definition deleteTask :: "jsstring \<Rightarrow> store \<Rightarrow> (error + unit) \<times> store" where
  "deleteTask i s =
     (case s of
        None \<Rightarrow> (Inl NotInitialized, s)
      | Some rows \<Rightarrow> (Inr (), Some (filter (\<lambda>r. row_id r \<noteq> bindText i) rows)))"

text \<open>The row stored under an id, as \<open>SELECT ... WHERE id = ?\<close> finds it.\<close>

definition stored :: "store \<Rightarrow> jsstring \<Rightarrow> row option" where
  "stored s i =
     (case s of None \<Rightarrow> None | Some rows \<Rightarrow> find (\<lambda>r. row_id r = bindText i) rows)"

text \<open>
  The rows the service writes from entities that satisfy the entity's invariants: title
  and id pass their validation, and \<open>completed\<close> is 1 or 0.
\<close>

definition written_row :: "row \<Rightarrow> bool" where
  "written_row r \<longleftrightarrow>
     validateTitle (row_title r) = Inr () \<and> validateId (row_id r) = Inr () \<and>
     (row_completed r = 1 \<or> row_completed r = 0)"

text \<open>The text columns of a row in the table hold text as the binding stores it.\<close>

definition stored_text :: "row \<Rightarrow> bool" where
  "stored_text r \<longleftrightarrow>
     bindText (row_id r) = row_id r \<and> bindText (row_title r) = row_title r \<and>
     bindText (row_description r) = row_description r"

section \<open>Title validation\<close>

lemma trim_Nil_iff: "trim s = [] \<longleftrightarrow> blank s"
proof
  assume "trim s = []"
  then have all: "\<forall>c \<in> set (dropWhile isWhiteSpace s). isWhiteSpace c"
    by (simp add: trim_def)
  have "dropWhile isWhiteSpace s = []"
  proof (rule ccontr)
    assume ne: "dropWhile isWhiteSpace s \<noteq> []"
    then have "\<not> isWhiteSpace (hd (dropWhile isWhiteSpace s))"
      by (rule hd_dropWhile)
    moreover have "hd (dropWhile isWhiteSpace s) \<in> set (dropWhile isWhiteSpace s)"
      using ne by simp
    ultimately show False using all by blast
  qed
  then show "blank s" by (simp add: blank_def)
next
  assume "blank s"
  then have d: "dropWhile isWhiteSpace s = []" by (simp add: blank_def)
  show "trim s = []" unfolding trim_def d by simp
qed

lemma validateTitle_cases:
  "validateTitle t =
     (if blank t then Inl EmptyTitle
      else if length t > 255 then Inl TitleTooLong
      else Inr ())"
  by (auto simp: validateTitle_def trim_Nil_iff blank_def)

lemma validateId_cases:
  "validateId i = (if blank i then Inl EmptyId else Inr ())"
  by (auto simp: validateId_def trim_Nil_iff blank_def)

subsection \<open>Text as the database holds it\<close>

lemma surrogate_not_white: "isSurrogate c \<Longrightarrow> \<not> isWhiteSpace c"
  by (auto simp: isSurrogate_def isWhiteSpace_def word_le_nat_alt)

lemma replacement_plain: "\<not> isSurrogate 0xFFFD" "\<not> isWhiteSpace 0xFFFD"
  by (simp_all add: isSurrogate_def isWhiteSpace_def)

lemma high_low_surrogate:
  "isHighSurrogate c \<Longrightarrow> isSurrogate c" "isLowSurrogate c \<Longrightarrow> isSurrogate c"
  by (auto simp: isSurrogate_def isHighSurrogate_def isLowSurrogate_def word_le_nat_alt)

lemma bindText_plain: "\<not> isSurrogate c \<Longrightarrow> bindText (c # s) = c # bindText s"
  by (cases s) (auto dest: high_low_surrogate)

lemma bindText_no_surrogate: "\<forall>c \<in> set s. \<not> isSurrogate c \<Longrightarrow> bindText s = s"
  by (induction s) (auto simp: bindText_plain)

lemma bindText_idem: "bindText (bindText s) = bindText s"
  by (induction s rule: bindText.induct) (auto simp: bindText_plain replacement_plain)

lemma length_bindText: "length (bindText s) = length s"
  by (induction s rule: bindText.induct) auto

lemma blank_bindText: "blank (bindText s) = blank s"
  by (induction s rule: bindText.induct)
     (auto simp: blank_def replacement_plain dest: surrogate_not_white high_low_surrogate)

lemma validateTitle_bindText: "validateTitle (bindText t) = validateTitle t"
  by (simp add: validateTitle_cases blank_bindText length_bindText)

lemma validateId_bindText: "validateId (bindText i) = validateId i"
  by (simp add: validateId_cases blank_bindText)

text \<open>
  The ISO text of three dates, and two texts whose order is not the order of their time
  values: the year 10000 is written with a sign, and its text comes before that of 1970.
\<close>

lemma toISOString_epoch: "toISOString 0 = ''1970-01-01T00:00:00.000Z''"
  by code_simp

lemma toISOString_2026: "toISOString 1767225600000 = ''2026-01-01T00:00:00.000Z''"
  by code_simp

lemma toISOString_10000: "toISOString 253402300800000 = ''+010000-01-01T00:00:00.000Z''"
  by code_simp

lemma toISOString_order:
  "(0 :: int) < 253402300800000 \<and> toISOString 253402300800000 < toISOString 0"
  by (simp add: toISOString_epoch toISOString_10000)

text \<open>
  Claim C6, as the code has it. A title that is empty or consists of white space only is
  rejected with \<open>EmptyTitle\<close> by the constructor and by \<open>updateTitle\<close>, whatever its
  length. A title of more than 255 code units (raw length) that is not white space only is
  rejected by both with \<open>TitleTooLong\<close>. Every other title is accepted by
  \<open>updateTitle\<close>, and by the constructor when the id is not blank and the due date is
  \<open>null\<close> or not before the clock; the entity's title is then the given title. A rejected
  \<open>updateTitle\<close> leaves the entity as it was.
\<close>

theorem title_validation:
  "(blank t \<longrightarrow>
      Task_constructor now i t d c due created = Inl EmptyTitle \<and>
      updateTitle t task = (Inl EmptyTitle, task)) \<and>
   (\<not> blank t \<and> length t > 255 \<longrightarrow>
      Task_constructor now i t d c due created = Inl TitleTooLong \<and>
      updateTitle t task = (Inl TitleTooLong, task)) \<and>
   (\<not> blank t \<and> length t \<le> 255 \<longrightarrow>
      updateTitle t task = (Inr (), task\<lparr>title := t\<rparr>) \<and>
      (\<not> blank i \<and> validateDueDate now due = Inr () \<longrightarrow>
         (\<exists>task'. Task_constructor now i t d c due created = Inr task' \<and> title task' = t)))"
  by (simp add: Task_constructor_def updateTitle_def validateTitle_cases validateId_cases)

theorem title_validation_witness:
  "blank [0x20] \<and>
   Task_constructor 0 [0x74] [0x20] [] False None 0 = Inl EmptyTitle \<and>
   \<not> blank (replicate 256 0x61) \<and> length (replicate 256 (0x61 :: 16 word)) > 255 \<and>
   Task_constructor 0 [0x74] (replicate 256 0x61) [] False None 0 = Inl TitleTooLong \<and>
   \<not> blank [0x61] \<and> length [0x61 :: 16 word] \<le> 255 \<and> \<not> blank [0x74] \<and>
   validateDueDate 0 None = Inr () \<and>
   (\<exists>task'. Task_constructor 0 [0x74] [0x61] [] False None 0 = Inr task' \<and>
      title task' = [0x61])"
proof -
  have b1: "blank [0x20]"
    by (simp add: blank_def isWhiteSpace_def)
  have b2: "\<not> blank (replicate 256 0x61)"
    by (simp add: blank_def isWhiteSpace_def)
  have b3: "\<not> blank [0x61]" "\<not> blank [0x74]"
    by (simp_all add: blank_def isWhiteSpace_def)
  have d: "validateDueDate 0 None = Inr ()"
    by (simp add: validateDueDate_def)
  show ?thesis
    using b1 b2 b3 d
      title_validation [of "[0x20]" 0 "[0x74]" "[]" False None 0]
      title_validation [of "replicate 256 0x61" 0 "[0x74]" "[]" False None 0]
      title_validation [of "[0x61]" 0 "[0x74]" "[]" False None 0]
    by simp
qed

text \<open>
  Claim C6 as it is written fails: a title of 256 spaces is longer than 255 characters,
  and the constructor and \<open>updateTitle\<close> reject it with \<open>EmptyTitle\<close>, not with
  \<open>TitleTooLong\<close>, because the emptiness check runs first.
\<close>

theorem title_validation_counterexample:
  "length (replicate 256 (0x20 :: 16 word)) > 255 \<and>
   Task_constructor 0 [0x74] (replicate 256 0x20) [] False None 0 \<noteq> Inl TitleTooLong \<and>
   fst (updateTitle (replicate 256 0x20)
     \<lparr>task_id = [0x74], title = [0x61], description = [], completed = False,
      createdAt = 0, dueDate = None\<rparr>) \<noteq> Inl TitleTooLong"
proof -
  have "blank (replicate 256 0x20)"
    by (simp add: blank_def isWhiteSpace_def)
  then show ?thesis
    by (simp add: Task_constructor_def updateTitle_def validateTitle_cases)
qed

section \<open>Due date validation\<close>




section \<open>The store: facts about rows and reads\<close>

lemma find_map_rows:
  "(\<And>r. row_id (f r) = row_id r) \<Longrightarrow>
   find (\<lambda>r. row_id r = i) (map f rows) = map_option f (find (\<lambda>r. row_id r = i) rows)"
  by (induction rows) auto

lemma stored_row_id: "stored s i = Some r \<Longrightarrow> row_id r = bindText i"
  by (auto simp: stored_def find_Some_iff split: option.splits)

lemma stored_in_rows: "stored (Some rows) i = Some r \<Longrightarrow> r \<in> set rows"
  by (auto simp: stored_def find_Some_iff)

lemma Task_constructor_Inr:
  "Task_constructor now i t d c due created = Inr task \<Longrightarrow>
     validateTitle t = Inr () \<and> validateId i = Inr () \<and> validateDueDate now due = Inr () \<and>
     task = \<lparr>task_id = i, title = t, description = d, completed = c,
             createdAt = created, dueDate = due\<rparr>"
  by (auto simp: Task_constructor_def split: sum.splits)

lemma updateTask_failure_unchanged:
  "updateTask now1 now2 i u s = (Inl e, s') \<Longrightarrow> s' = s"
  by (auto simp: updateTask_def split: sum.splits option.splits)

lemma updateTask_rejects_wholesale:
  "getTaskById now1 i s = Inr (Some existing) \<Longrightarrow>
   Task_constructor now2 i
     (nullish (upd_title u) (title existing))
     (nullish (upd_description u) (description existing))
     (nullish (upd_completed u) (completed existing))
     (nullish_date (upd_dueDate u) (dueDate existing))
     (createdAt existing) = Inl e \<Longrightarrow>
   updateTask now1 now2 i u s = (Inl e, s)"
  by (simp add: updateTask_def)

text \<open>What a successful update has done: the read, the merge, and the row it leaves.\<close>

lemma updateTask_success:
  assumes st: "stored (Some rows) i = Some r"
    and up: "updateTask now1 now2 i u (Some rows) = (Inr x, s')"
  shows "\<exists>existing task.
           rowToTask now1 r = Inr existing \<and>
           Task_constructor now2 i
             (nullish (upd_title u) (title existing))
             (nullish (upd_description u) (description existing))
             (nullish (upd_completed u) (completed existing))
             (nullish_date (upd_dueDate u) (dueDate existing))
             (createdAt existing) = Inr task \<and>
           stored s' i =
             Some (r\<lparr>row_title := bindText (title task),
                     row_description := bindText (description task),
                     row_completed := (if completed task then 1 else 0),
                     row_dueDate := dueDate task\<rparr>)"
proof -
  from st have f: "find (\<lambda>r. row_id r = bindText i) rows = Some r"
    by (simp add: stored_def)
  have i: "row_id r = bindText i"
    using st by (rule stored_row_id)
  from up obtain existing task where
    ex: "rowToTask now1 r = Inr existing"
    and mk: "Task_constructor now2 i
       (nullish (upd_title u) (title existing))
       (nullish (upd_description u) (description existing))
       (nullish (upd_completed u) (completed existing))
       (nullish_date (upd_dueDate u) (dueDate existing))
       (createdAt existing) = Inr task"
    and s': "s' = Some (map (\<lambda>r. if row_id r = bindText i
                                  then r\<lparr>row_title := bindText (title task),
                                         row_description := bindText (description task),
                                         row_completed := (if completed task then 1 else 0),
                                         row_dueDate := dueDate task\<rparr>
                                  else r) rows)"
    by (auto simp: updateTask_def getTaskById_def f split: sum.splits option.splits)
  have "stored s' i =
          Some (r\<lparr>row_title := bindText (title task),
                  row_description := bindText (description task),
                  row_completed := (if completed task then 1 else 0),
                  row_dueDate := dueDate task\<rparr>)"
    unfolding s' stored_def using f i by (simp add: find_map_rows)
  with ex mk show ?thesis by blast
qed

lemmas text_defs = isSurrogate_def isHighSurrogate_def isLowSurrogate_def

lemmas eval_defs = updateTask_def getTaskById_def getTasks_def addTask_def deleteTask_def
  rowToTask_def Task_constructor_def validateTitle_cases validateId_cases blank_def
  isWhiteSpace_def validateDueDate_def nullish_def nullish_date_def stored_def text_defs

lemma distinct_filter_one:
  "distinct (map f xs) \<Longrightarrow> k \<in> set (map f xs) \<Longrightarrow> length (filter (\<lambda>x. f x = k) xs) = 1"
proof (induction xs)
  case Nil
  then show ?case by simp
next
  case (Cons a xs)
  show ?case
  proof (cases "f a = k")
    case True
    with Cons.prems have "\<forall>x \<in> set xs. f x \<noteq> k" by (auto simp: image_iff)
    then have "filter (\<lambda>x. f x = k) xs = []" by (simp add: filter_empty_conv)
    with True show ?thesis by simp
  next
    case False
    with Cons show ?thesis by auto
  qed
qed

lemma rowToTask_constructor:
  "rowToTask now r =
     Task_constructor now (row_id r) (row_title r) (row_description r)
       (row_completed r = 1) (row_dueDate r) (row_createdAt r)"
  by (simp add: rowToTask_def)

lemma rowToTask_overdue:
  "row_dueDate r = Some d \<Longrightarrow> d < now \<Longrightarrow> \<exists>e. rowToTask now r = Inl e"
  by (auto simp: rowToTask_def Task_constructor_def validateDueDate_def split: sum.splits)

lemma rowToTask_overdue_written:
  "written_row r \<Longrightarrow> row_dueDate r = Some d \<Longrightarrow> d < now \<Longrightarrow> rowToTask now r = Inl PastDueDate"
  by (auto simp: written_row_def rowToTask_def Task_constructor_def validateDueDate_def
      split: sum.splits)

lemma map_rowToTask_fails:
  "r \<in> set rs \<Longrightarrow> rowToTask now r = Inl e \<Longrightarrow> \<exists>e'. map_rowToTask now rs = Inl e'"
  by (induction rs) (auto split: sum.splits)

lemma getTasks_fails:
  assumes "r \<in> set rows" and "row_dueDate r = Some d" and "d < now"
  shows "\<exists>e. getTasks now (Some rows) = Inl (ParseTasksFailed e)"
proof -
  from assms(2,3) obtain e where "rowToTask now r = Inl e"
    using rowToTask_overdue by blast
  moreover have "r \<in> set (sort_key (\<lambda>r. toISOString (row_createdAt r)) rows)"
    using assms(1) by simp
  ultimately obtain e' where
    "map_rowToTask now (sort_key (\<lambda>r. toISOString (row_createdAt r)) rows) = Inl e'"
    using map_rowToTask_fails by blast
  then show ?thesis by (simp add: getTasks_def)
qed

lemma addTask_distinct:
  "distinct (map row_id rows) \<Longrightarrow> addTask task (Some rows) = (Inr (), s') \<Longrightarrow>
   \<exists>rows'. s' = Some rows' \<and> distinct (map row_id rows')"
  by (auto simp: addTask_def split: if_splits)

lemma addTask_written:
  assumes "Task_constructor now i t d c due created = Inr task"
    and "\<forall>r \<in> set rows. written_row r"
    and "addTask task (Some rows) = (Inr (), Some rows')"
  shows "\<forall>r \<in> set rows'. written_row r"
  using assms(2,3) Task_constructor_Inr [OF assms(1)]
  by (auto simp: addTask_def written_row_def validateTitle_bindText validateId_bindText
      split: if_splits)

lemma updateTask_ids:
  "updateTask now1 now2 i u (Some rows) = (res, Some rows') \<Longrightarrow>
   map row_id rows' = map row_id rows"
  by (auto simp: updateTask_def split: sum.splits option.splits)

lemma updateTask_written:
  assumes "\<forall>r \<in> set rows. written_row r"
    and "updateTask now1 now2 i u (Some rows) = (res, Some rows')"
  shows "\<forall>r \<in> set rows'. written_row r"
proof (cases res)
  case (Inl e)
  with assms(2) have "Some rows' = Some rows"
    by (auto dest: updateTask_failure_unchanged)
  with assms(1) show ?thesis by simp
next
  case (Inr x)
  with assms(2) obtain t d c due created task where
    mk: "Task_constructor now2 i t d c due created = Inr task"
    and rows': "rows' = map (\<lambda>r. if row_id r = bindText i
                                  then r\<lparr>row_title := bindText (title task),
                                         row_description := bindText (description task),
                                         row_completed := (if completed task then 1 else 0),
                                         row_dueDate := dueDate task\<rparr>
                                  else r) rows"
    by (auto simp: updateTask_def split: sum.splits option.splits)
  from Task_constructor_Inr [OF mk] have "validateTitle (title task) = Inr ()"
    by auto
  with assms(1) show ?thesis
    by (auto simp: rows' written_row_def validateTitle_bindText)
qed

lemma addTask_stored_text:
  "\<forall>r \<in> set rows. stored_text r \<Longrightarrow> addTask task (Some rows) = (res, Some rows') \<Longrightarrow>
   \<forall>r \<in> set rows'. stored_text r"
  by (auto simp: addTask_def stored_text_def bindText_idem split: if_splits)

lemma updateTask_stored_text:
  "\<forall>r \<in> set rows. stored_text r \<Longrightarrow>
   updateTask now1 now2 i u (Some rows) = (res, Some rows') \<Longrightarrow>
   \<forall>r \<in> set rows'. stored_text r"
  by (auto simp: updateTask_def stored_text_def bindText_idem
      split: sum.splits option.splits if_splits)

lemma deleteTask_written:
  "\<forall>r \<in> set rows. written_row r \<Longrightarrow> deleteTask i (Some rows) = (res, Some rows') \<Longrightarrow>
   \<forall>r \<in> set rows'. written_row r"
  by (auto simp: deleteTask_def)

section \<open>Partial updates\<close>

text \<open>
  Claim C1, as the code has it. Take a store that holds a row for the id, as the service
  writes rows (\<open>completed\<close> is 1 or 0, the text columns hold stored text), and any
  call of \<open>updateTask\<close> on that id, with its outcome \<open>res\<close> and the store \<open>s'\<close> it
  leaves. The row for the id is still there; its id and \<open>createdAt\<close> are the old ones;
  every field that \<open>updates\<close> does not supply keeps its old value; and when the call
  succeeds, the stored title is the supplied title as the database holds text: the
  title itself when it has no surrogate code unit outside a pair, and otherwise the title
  with each such code unit replaced by U+FFFD. For an update that supplies only a title,
  \<open>description\<close>, \<open>completed\<close>, \<open>dueDate\<close> and \<open>createdAt\<close> are unchanged.
\<close>

theorem update_frame:
  assumes st: "stored (Some rows) i = Some r"
    and c: "row_completed r = 1 \<or> row_completed r = 0"
    and tx: "stored_text r"
    and up: "updateTask now1 now2 i u (Some rows) = (res, s')"
  shows "\<exists>r'. stored s' i = Some r' \<and>
           row_id r' = row_id r \<and> row_createdAt r' = row_createdAt r \<and>
           (upd_title u = None \<longrightarrow> row_title r' = row_title r) \<and>
           (upd_description u = None \<longrightarrow> row_description r' = row_description r) \<and>
           (upd_completed u = None \<longrightarrow> row_completed r' = row_completed r) \<and>
           (upd_dueDate u = None \<longrightarrow> row_dueDate r' = row_dueDate r) \<and>
           (res = Inr () \<longrightarrow>
              (\<forall>t. upd_title u = Some t \<longrightarrow>
                 row_title r' = bindText t \<and> (bindText t = t \<longrightarrow> row_title r' = t)))"
proof (cases res)
  case (Inl e)
  with up have "s' = Some rows"
    by (auto dest: updateTask_failure_unchanged)
  with st Inl show ?thesis by simp
next
  case (Inr x)
  with st up obtain existing task where
    ex: "rowToTask now1 r = Inr existing"
    and mk: "Task_constructor now2 i
       (nullish (upd_title u) (title existing))
       (nullish (upd_description u) (description existing))
       (nullish (upd_completed u) (completed existing))
       (nullish_date (upd_dueDate u) (dueDate existing))
       (createdAt existing) = Inr task"
    and s': "stored s' i =
       Some (r\<lparr>row_title := bindText (title task),
               row_description := bindText (description task),
               row_completed := (if completed task then 1 else 0),
               row_dueDate := dueDate task\<rparr>)"
    using updateTask_success by blast
  note Task_constructor_Inr [OF mk] Task_constructor_Inr [OF ex [unfolded rowToTask_def]]
  with s' c tx show ?thesis
    by (auto simp: nullish_def nullish_date_def stored_text_def)
qed

theorem update_frame_witness:
  "stored (Some [\<lparr>row_id = [0x74, 0x31], row_title = [0x61], row_description = [0x64],
                  row_completed = 0, row_createdAt = 0, row_dueDate = Some 20\<rparr>]) [0x74, 0x31]
     = Some \<lparr>row_id = [0x74, 0x31], row_title = [0x61], row_description = [0x64],
             row_completed = 0, row_createdAt = 0, row_dueDate = Some 20\<rparr> \<and>
   stored_text \<lparr>row_id = [0x74, 0x31], row_title = [0x61], row_description = [0x64],
                row_completed = 0, row_createdAt = 0, row_dueDate = Some 20\<rparr> \<and>
   bindText [0x4E] = [0x4E] \<and>
   updateTask 10 11 [0x74, 0x31]
       \<lparr>upd_title = Some [0x4E], upd_description = None, upd_completed = None,
        upd_dueDate = None\<rparr>
       (Some [\<lparr>row_id = [0x74, 0x31], row_title = [0x61], row_description = [0x64],
               row_completed = 0, row_createdAt = 0, row_dueDate = Some 20\<rparr>])
     = (Inr (),
        Some [\<lparr>row_id = [0x74, 0x31], row_title = [0x4E], row_description = [0x64],
               row_completed = 0, row_createdAt = 0, row_dueDate = Some 20\<rparr>]) \<and>
   (\<exists>r'. stored (Some [\<lparr>row_id = [0x74, 0x31], row_title = [0x4E], row_description = [0x64],
               row_completed = 0, row_createdAt = 0, row_dueDate = Some 20\<rparr>]) [0x74, 0x31]
            = Some r' \<and>
         row_title r' = [0x4E] \<and> row_description r' = [0x64] \<and> row_completed r' = 0 \<and>
         row_dueDate r' = Some 20 \<and> row_createdAt r' = 0 \<and> row_id r' = [0x74, 0x31]) \<and>
   updateTask 10 11 [0x74, 0x31]
       \<lparr>upd_title = None, upd_description = None, upd_completed = Some True,
        upd_dueDate = None\<rparr>
       (Some [\<lparr>row_id = [0x74, 0x31], row_title = [0x61], row_description = [0x64],
               row_completed = 0, row_createdAt = 0, row_dueDate = Some 20\<rparr>])
     = (Inr (),
        Some [\<lparr>row_id = [0x74, 0x31], row_title = [0x61], row_description = [0x64],
               row_completed = 1, row_createdAt = 0, row_dueDate = Some 20\<rparr>]) \<and>
   (\<exists>r'. stored (Some [\<lparr>row_id = [0x74, 0x31], row_title = [0x61], row_description = [0x64],
               row_completed = 1, row_createdAt = 0, row_dueDate = Some 20\<rparr>]) [0x74, 0x31]
            = Some r' \<and>
         row_title r' = [0x61] \<and> row_description r' = [0x64] \<and>
         row_dueDate r' = Some 20 \<and> row_createdAt r' = 0 \<and> row_id r' = [0x74, 0x31])"
proof -
  let ?r = "\<lparr>row_id = [0x74, 0x31], row_title = [0x61], row_description = [0x64],
             row_completed = 0, row_createdAt = 0, row_dueDate = Some 20\<rparr>"
  let ?u = "\<lparr>upd_title = Some [0x4E], upd_description = None, upd_completed = None,
        upd_dueDate = None\<rparr>"
  let ?r' = "\<lparr>row_id = [0x74, 0x31], row_title = [0x4E], row_description = [0x64],
               row_completed = 0, row_createdAt = 0, row_dueDate = Some 20\<rparr>"
  let ?v = "\<lparr>upd_title = None, upd_description = None, upd_completed = Some True,
        upd_dueDate = None\<rparr>"
  let ?r'' = "\<lparr>row_id = [0x74, 0x31], row_title = [0x61], row_description = [0x64],
               row_completed = 1, row_createdAt = 0, row_dueDate = Some 20\<rparr>"
  have h1: "stored (Some [?r]) [0x74, 0x31] = Some ?r"
    by (simp add: stored_def text_defs)
  have h2: "row_completed ?r = 1 \<or> row_completed ?r = 0"
    by simp
  have h3: "updateTask 10 11 [0x74, 0x31] ?u (Some [?r]) = (Inr (), Some [?r'])"
    by (simp add: eval_defs)
  have h4: "updateTask 10 11 [0x74, 0x31] ?v (Some [?r]) = (Inr (), Some [?r''])"
    by (simp add: eval_defs)
  have h5: "stored_text ?r"
    by (simp add: stored_text_def text_defs)
  have h6: "bindText [0x4E] = [0x4E]"
    by (simp add: text_defs)
  show ?thesis
    using h1 h3 h4 h5 h6 update_frame [OF h1 h2 h5 h3] update_frame [OF h1 h2 h5 h4]
    by (auto simp: text_defs)
qed

text \<open>
  Claim C1 as it is written fails where it says that the stored row has the new title:
  the update below supplies the title that is the single code unit U+D800, it succeeds,
  and the stored title is U+FFFD.
\<close>

theorem update_frame_counterexample:
  "updateTask 10 11 [0x74, 0x31]
       \<lparr>upd_title = Some [0xD800], upd_description = None, upd_completed = None,
        upd_dueDate = None\<rparr>
       (Some [\<lparr>row_id = [0x74, 0x31], row_title = [0x61], row_description = [0x64],
               row_completed = 0, row_createdAt = 0, row_dueDate = None\<rparr>])
     = (Inr (),
        Some [\<lparr>row_id = [0x74, 0x31], row_title = [0xFFFD], row_description = [0x64],
               row_completed = 0, row_createdAt = 0, row_dueDate = None\<rparr>]) \<and>
   [0xFFFD] \<noteq> [0xD800 :: 16 word]"
  by (simp add: eval_defs)

section \<open>Adding a task whose id is present\<close>

text \<open>
  Claim C5. In a store whose ids are pairwise distinct (the \<open>PRIMARY KEY\<close> constraint)
  and that holds a row with the task's id, as the database holds it, \<open>addTask\<close> fails
  with \<open>DuplicateId\<close> and leaves the store as it was: exactly one row has that id.
\<close>

theorem add_duplicate_id:
  assumes "distinct (map row_id rows)" and "bindText (task_id task) \<in> set (map row_id rows)"
  shows "addTask task (Some rows) = (Inl DuplicateId, Some rows) \<and>
         length (filter (\<lambda>r. row_id r = bindText (task_id task)) rows) = 1"
  using assms by (simp add: addTask_def distinct_filter_one)

theorem add_duplicate_id_witness:
  "distinct (map row_id
     [\<lparr>row_id = [0x74, 0x31], row_title = [0x61], row_description = [],
       row_completed = 0, row_createdAt = 0, row_dueDate = None\<rparr>]) \<and>
   bindText [0x74, 0x31] = [0x74, 0x31] \<and>
   addTask \<lparr>task_id = [0x74, 0x31], title = [0x62], description = [], completed = True,
            createdAt = 7, dueDate = None\<rparr>
     (Some [\<lparr>row_id = [0x74, 0x31], row_title = [0x61], row_description = [],
             row_completed = 0, row_createdAt = 0, row_dueDate = None\<rparr>])
   = (Inl DuplicateId,
      Some [\<lparr>row_id = [0x74, 0x31], row_title = [0x61], row_description = [],
             row_completed = 0, row_createdAt = 0, row_dueDate = None\<rparr>]) \<and>
   length (filter (\<lambda>r. row_id r = [0x74, 0x31])
     [\<lparr>row_id = [0x74, 0x31], row_title = [0x61], row_description = [],
       row_completed = 0, row_createdAt = 0, row_dueDate = None\<rparr>]) = 1"
proof -
  let ?r = "\<lparr>row_id = [0x74, 0x31], row_title = [0x61], row_description = [],
       row_completed = 0, row_createdAt = 0, row_dueDate = None\<rparr>"
  let ?t = "\<lparr>task_id = [0x74, 0x31], title = [0x62], description = [], completed = True,
            createdAt = 7, dueDate = None\<rparr>"
  have b: "bindText [0x74, 0x31] = [0x74, 0x31]"
    by (simp add: text_defs)
  have h1: "distinct (map row_id [?r])" by simp
  have h2: "bindText (task_id ?t) \<in> set (map row_id [?r])"
    by (simp add: text_defs)
  show ?thesis
    using h1 b add_duplicate_id [OF h1 h2] by (simp add: text_defs)
qed

text \<open>
  The stored ids are stored text, so a task whose id equals the id of a row is refused
  as well.
\<close>

lemma add_present_id:
  assumes "distinct (map row_id rows)" and "\<forall>r \<in> set rows. stored_text r"
    and "task_id task \<in> set (map row_id rows)"
  shows "addTask task (Some rows) = (Inl DuplicateId, Some rows) \<and>
         length (filter (\<lambda>r. row_id r = task_id task) rows) = 1"
proof -
  from assms(2,3) have "bindText (task_id task) = task_id task"
    by (auto simp: stored_text_def)
  with assms(1,3) show ?thesis
    by (simp add: addTask_def distinct_filter_one)
qed

section \<open>Rows whose due date has passed\<close>

text \<open>
  Claim C9. Every read rebuilds the row with the constructor, which checks the due date
  against the clock of the read. So when the row stored under an id has a due date
  strictly before that clock, \<open>getTaskById\<close> fails, \<open>getTasks\<close> fails for the whole
  store, and \<open>updateTask\<close> fails with the error of its read and changes nothing. For a
  row written from a valid entity the error of the constructor is \<open>PastDueDate\<close>.
\<close>

theorem overdue_row_unreadable:
  assumes st: "stored (Some rows) i = Some r"
    and due: "row_dueDate r = Some d" and past: "d < now"
  shows "(\<exists>e. getTaskById now i (Some rows) = Inl (ParseTaskFailed e)) \<and>
         (\<exists>e. getTasks now (Some rows) = Inl (ParseTasksFailed e)) \<and>
         (\<exists>e. updateTask now now2 i u (Some rows) = (Inl (ParseTaskFailed e), Some rows)) \<and>
         (written_row r \<longrightarrow>
            getTaskById now i (Some rows) = Inl (ParseTaskFailed PastDueDate))"
proof -
  from st have f: "find (\<lambda>r. row_id r = bindText i) rows = Some r"
    by (simp add: stored_def)
  from due past obtain e where e: "rowToTask now r = Inl e"
    using rowToTask_overdue by blast
  have g: "getTaskById now i (Some rows) = Inl (ParseTaskFailed e)"
    by (simp add: getTaskById_def f e)
  have a: "\<exists>e. getTasks now (Some rows) = Inl (ParseTasksFailed e)"
    using stored_in_rows [OF st] due past by (rule getTasks_fails)
  have u: "updateTask now now2 i u (Some rows) = (Inl (ParseTaskFailed e), Some rows)"
    by (simp add: updateTask_def g)
  have w: "written_row r \<longrightarrow> getTaskById now i (Some rows) = Inl (ParseTaskFailed PastDueDate)"
    using due past by (simp add: getTaskById_def f rowToTask_overdue_written)
  from g a u w show ?thesis by blast
qed

theorem overdue_row_unreadable_witness:
  "stored (Some [\<lparr>row_id = [0x74, 0x31], row_title = [0x61], row_description = [],
                  row_completed = 0, row_createdAt = 0, row_dueDate = Some 5\<rparr>]) [0x74, 0x31]
     = Some \<lparr>row_id = [0x74, 0x31], row_title = [0x61], row_description = [],
             row_completed = 0, row_createdAt = 0, row_dueDate = Some 5\<rparr> \<and>
   (5 :: int) < 10 \<and>
   written_row \<lparr>row_id = [0x74, 0x31], row_title = [0x61], row_description = [],
                row_completed = 0, row_createdAt = 0, row_dueDate = Some 5\<rparr> \<and>
   getTaskById 10 [0x74, 0x31]
     (Some [\<lparr>row_id = [0x74, 0x31], row_title = [0x61], row_description = [],
             row_completed = 0, row_createdAt = 0, row_dueDate = Some 5\<rparr>])
   = Inl (ParseTaskFailed PastDueDate) \<and>
   (\<exists>e. getTasks 10
     (Some [\<lparr>row_id = [0x74, 0x31], row_title = [0x61], row_description = [],
             row_completed = 0, row_createdAt = 0, row_dueDate = Some 5\<rparr>])
   = Inl (ParseTasksFailed e)) \<and>
   (\<exists>e. updateTask 10 11 [0x74, 0x31]
     \<lparr>upd_title = None, upd_description = None, upd_completed = Some True,
      upd_dueDate = None\<rparr>
     (Some [\<lparr>row_id = [0x74, 0x31], row_title = [0x61], row_description = [],
             row_completed = 0, row_createdAt = 0, row_dueDate = Some 5\<rparr>])
   = (Inl (ParseTaskFailed e),
      Some [\<lparr>row_id = [0x74, 0x31], row_title = [0x61], row_description = [],
             row_completed = 0, row_createdAt = 0, row_dueDate = Some 5\<rparr>]))"
proof -
  let ?r = "\<lparr>row_id = [0x74, 0x31], row_title = [0x61], row_description = [],
             row_completed = 0, row_createdAt = 0, row_dueDate = Some 5\<rparr>"
  have h1: "stored (Some [?r]) [0x74, 0x31] = Some ?r"
    by (simp add: stored_def text_defs)
  have h2: "row_dueDate ?r = Some 5" by simp
  have h3: "(5 :: int) < 10" by simp
  have h4: "written_row ?r"
    by (simp add: written_row_def validateTitle_cases validateId_cases blank_def
        isWhiteSpace_def)
  show ?thesis
    using h1 h3 h4
      overdue_row_unreadable [OF h1 h2 h3, of 11
        "\<lparr>upd_title = None, upd_description = None, upd_completed = Some True,
          upd_dueDate = None\<rparr>"]
    by simp
qed

section \<open>Updating the due date to null\<close>

text \<open>
  Claim C10, as the code has it. Take a row stored under an id with a due date \<open>d\<close>, and
  an update whose \<open>dueDate\<close> is \<open>null\<close>. Whatever the outcome of \<open>updateTask\<close>, the row
  stored under the id afterwards still has the due date \<open>d\<close>: \<open>null ?? d\<close> is \<open>d\<close>.
  The call succeeds when the row was written from a valid entity, the update supplies no
  title, and \<open>d\<close> is not before the clock of the read nor before the clock of the merge.
\<close>

theorem update_null_due_date:
  assumes st: "stored (Some rows) i = Some r"
    and due: "row_dueDate r = Some d"
    and u: "upd_dueDate u = Some None"
  shows "(\<exists>r'. stored (snd (updateTask now1 now2 i u (Some rows))) i = Some r' \<and>
              row_dueDate r' = Some d) \<and>
         (written_row r \<and> now1 \<le> d \<and> now2 \<le> d \<and> upd_title u = None \<longrightarrow>
            fst (updateTask now1 now2 i u (Some rows)) = Inr ())"
proof
  obtain res s' where up: "updateTask now1 now2 i u (Some rows) = (res, s')"
    by (cases "updateTask now1 now2 i u (Some rows)")
  show "\<exists>r'. stored (snd (updateTask now1 now2 i u (Some rows))) i = Some r' \<and>
              row_dueDate r' = Some d"
  proof (cases res)
    case (Inl e)
    with up have "s' = Some rows"
      by (auto dest: updateTask_failure_unchanged)
    with up st due show ?thesis by simp
  next
    case (Inr x)
    with st up obtain existing task where
      ex: "rowToTask now1 r = Inr existing"
      and mk: "Task_constructor now2 i
         (nullish (upd_title u) (title existing))
         (nullish (upd_description u) (description existing))
         (nullish (upd_completed u) (completed existing))
         (nullish_date (upd_dueDate u) (dueDate existing))
         (createdAt existing) = Inr task"
      and s': "stored s' i =
         Some (r\<lparr>row_title := bindText (title task),
                 row_description := bindText (description task),
                 row_completed := (if completed task then 1 else 0),
                 row_dueDate := dueDate task\<rparr>)"
      using updateTask_success by blast
    note Task_constructor_Inr [OF mk] Task_constructor_Inr [OF ex [unfolded rowToTask_def]]
    with s' up due u show ?thesis
      by (auto simp: nullish_date_def)
  qed
next
  show "written_row r \<and> now1 \<le> d \<and> now2 \<le> d \<and> upd_title u = None \<longrightarrow>
          fst (updateTask now1 now2 i u (Some rows)) = Inr ()"
  proof
    assume a: "written_row r \<and> now1 \<le> d \<and> now2 \<le> d \<and> upd_title u = None"
    from st have f: "find (\<lambda>r. row_id r = bindText i) rows = Some r"
      by (simp add: stored_def)
    have i: "row_id r = bindText i"
      using st by (rule stored_row_id)
    from a i have v: "validateId i = Inr ()"
      by (simp add: written_row_def validateId_bindText)
    show "fst (updateTask now1 now2 i u (Some rows)) = Inr ()"
      using a i v due u
      by (simp add: updateTask_def getTaskById_def f rowToTask_def Task_constructor_def
          written_row_def validateDueDate_def nullish_def nullish_date_def)
  qed
qed

theorem update_null_due_date_witness:
  "stored (Some [\<lparr>row_id = [0x74, 0x31], row_title = [0x61], row_description = [],
                  row_completed = 0, row_createdAt = 0, row_dueDate = Some 20\<rparr>]) [0x74, 0x31]
     = Some \<lparr>row_id = [0x74, 0x31], row_title = [0x61], row_description = [],
             row_completed = 0, row_createdAt = 0, row_dueDate = Some 20\<rparr> \<and>
   written_row \<lparr>row_id = [0x74, 0x31], row_title = [0x61], row_description = [],
                row_completed = 0, row_createdAt = 0, row_dueDate = Some 20\<rparr> \<and>
   (10 :: int) \<le> 20 \<and> (11 :: int) \<le> 20 \<and>
   fst (updateTask 10 11 [0x74, 0x31]
     \<lparr>upd_title = None, upd_description = None, upd_completed = None,
      upd_dueDate = Some None\<rparr>
     (Some [\<lparr>row_id = [0x74, 0x31], row_title = [0x61], row_description = [],
             row_completed = 0, row_createdAt = 0, row_dueDate = Some 20\<rparr>])) = Inr () \<and>
   (\<exists>r'. stored (snd (updateTask 10 11 [0x74, 0x31]
     \<lparr>upd_title = None, upd_description = None, upd_completed = None,
      upd_dueDate = Some None\<rparr>
     (Some [\<lparr>row_id = [0x74, 0x31], row_title = [0x61], row_description = [],
             row_completed = 0, row_createdAt = 0, row_dueDate = Some 20\<rparr>]))) [0x74, 0x31]
       = Some r' \<and> row_dueDate r' = Some 20)"
proof -
  let ?r = "\<lparr>row_id = [0x74, 0x31], row_title = [0x61], row_description = [],
             row_completed = 0, row_createdAt = 0, row_dueDate = Some 20\<rparr>"
  let ?u = "\<lparr>upd_title = None, upd_description = None, upd_completed = None,
      upd_dueDate = Some None\<rparr>"
  have h1: "stored (Some [?r]) [0x74, 0x31] = Some ?r"
    by (simp add: stored_def text_defs)
  have h2: "row_dueDate ?r = Some 20" by simp
  have h3: "upd_dueDate ?u = Some None" by simp
  have h4: "written_row ?r"
    by (simp add: written_row_def validateTitle_cases validateId_cases blank_def
        isWhiteSpace_def)
  show ?thesis
    using h1 h4 update_null_due_date [OF h1 h2 h3, of 10 11] by simp
qed

text \<open>
  Claim C10 as it is written fails where it says that the update succeeds for every
  stored task with a due date: the row below has the due date 1769904000000
  (2026-02-01T00:00:00Z), and at the clock 1772323200000 (2026-03-01T00:00:00Z)
  \<open>updateTask\<close> with \<open>dueDate: null\<close> is rejected.
\<close>

theorem update_null_due_date_counterexample:
  "stored (Some [\<lparr>row_id = [0x74, 0x31], row_title = [0x61], row_description = [],
                  row_completed = 0, row_createdAt = 1767225600000,
                  row_dueDate = Some 1769904000000\<rparr>]) [0x74, 0x31]
     = Some \<lparr>row_id = [0x74, 0x31], row_title = [0x61], row_description = [],
             row_completed = 0, row_createdAt = 1767225600000,
             row_dueDate = Some 1769904000000\<rparr> \<and>
   fst (updateTask 1772323200000 1772323200000 [0x74, 0x31]
     \<lparr>upd_title = None, upd_description = None, upd_completed = None,
      upd_dueDate = Some None\<rparr>
     (Some [\<lparr>row_id = [0x74, 0x31], row_title = [0x61], row_description = [],
             row_completed = 0, row_createdAt = 1767225600000,
             row_dueDate = Some 1769904000000\<rparr>])) \<noteq> Inr ()"
  by (simp add: eval_defs)

section \<open>Ids that are not in the store\<close>

text \<open>
  Claim C3, as the code has it. In an open store that holds no row whose id is the
  given id as the database holds it (the id itself when it has no surrogate code unit
  outside a pair), \<open>updateTask\<close> fails with \<open>NotFound\<close>, \<open>getTaskById\<close> resolves to
  \<open>null\<close> without an error, and \<open>deleteTask\<close> succeeds; none of them changes the
  store.
\<close>

theorem absent_id:
  assumes "bindText i \<notin> set (map row_id rows)"
  shows "updateTask now1 now2 i u (Some rows) = (Inl (NotFound i), Some rows) \<and>
         getTaskById now i (Some rows) = Inr None \<and>
         deleteTask i (Some rows) = (Inr (), Some rows)"
proof -
  from assms have f: "find (\<lambda>r. row_id r = bindText i) rows = None"
    by (auto simp: find_None_iff image_iff)
  have g: "getTaskById t i (Some rows) = Inr None" for t
    by (simp add: getTaskById_def f)
  have u: "updateTask now1 now2 i u (Some rows) = (Inl (NotFound i), Some rows)"
    by (simp add: updateTask_def g)
  from assms have "filter (\<lambda>r. row_id r \<noteq> bindText i) rows = rows"
    by (auto simp: filter_id_conv image_iff)
  then have d: "deleteTask i (Some rows) = (Inr (), Some rows)"
    by (simp add: deleteTask_def)
  from g u d show ?thesis by simp
qed

theorem absent_id_witness:
  "bindText [0x7A] \<notin> set (map row_id
     [\<lparr>row_id = [0x74, 0x31], row_title = [0x61], row_description = [],
       row_completed = 0, row_createdAt = 0, row_dueDate = None\<rparr>]) \<and>
   updateTask 10 11 [0x7A]
     \<lparr>upd_title = Some [0x4E], upd_description = None, upd_completed = None,
      upd_dueDate = None\<rparr>
     (Some [\<lparr>row_id = [0x74, 0x31], row_title = [0x61], row_description = [],
             row_completed = 0, row_createdAt = 0, row_dueDate = None\<rparr>])
   = (Inl (NotFound [0x7A]),
      Some [\<lparr>row_id = [0x74, 0x31], row_title = [0x61], row_description = [],
             row_completed = 0, row_createdAt = 0, row_dueDate = None\<rparr>]) \<and>
   getTaskById 10 [0x7A]
     (Some [\<lparr>row_id = [0x74, 0x31], row_title = [0x61], row_description = [],
             row_completed = 0, row_createdAt = 0, row_dueDate = None\<rparr>]) = Inr None \<and>
   deleteTask [0x7A]
     (Some [\<lparr>row_id = [0x74, 0x31], row_title = [0x61], row_description = [],
             row_completed = 0, row_createdAt = 0, row_dueDate = None\<rparr>])
   = (Inr (),
      Some [\<lparr>row_id = [0x74, 0x31], row_title = [0x61], row_description = [],
             row_completed = 0, row_createdAt = 0, row_dueDate = None\<rparr>])"
proof -
  let ?r = "\<lparr>row_id = [0x74, 0x31], row_title = [0x61], row_description = [],
       row_completed = 0, row_createdAt = 0, row_dueDate = None\<rparr>"
  have h: "bindText [0x7A] \<notin> set (map row_id [?r])"
    by (simp add: text_defs)
  show ?thesis
    using h absent_id [OF h, of 10 11 _ 10] by simp
qed

text \<open>
  Claim C3 as it is written fails for an id that no row has and that the database holds
  as the id of a row. The store below holds one row, with the id U+FFFD; the id U+D801
  is the id of no row, yet \<open>getTaskById\<close> returns the row's task, \<open>updateTask\<close>
  succeeds on the row instead of failing with \<open>NotFound\<close>, and \<open>deleteTask\<close> removes
  the row.
\<close>

theorem absent_id_counterexample:
  "[0xD801] \<notin> set (map row_id
     [\<lparr>row_id = [0xFFFD], row_title = [0x61], row_description = [],
       row_completed = 0, row_createdAt = 0, row_dueDate = None\<rparr>]) \<and>
   getTaskById 10 [0xD801]
     (Some [\<lparr>row_id = [0xFFFD], row_title = [0x61], row_description = [],
             row_completed = 0, row_createdAt = 0, row_dueDate = None\<rparr>])
   = Inr (Some \<lparr>task_id = [0xFFFD], title = [0x61], description = [], completed = False,
                createdAt = 0, dueDate = None\<rparr>) \<and>
   updateTask 10 11 [0xD801]
     \<lparr>upd_title = Some [0x4E], upd_description = None, upd_completed = None,
      upd_dueDate = None\<rparr>
     (Some [\<lparr>row_id = [0xFFFD], row_title = [0x61], row_description = [],
             row_completed = 0, row_createdAt = 0, row_dueDate = None\<rparr>])
   = (Inr (),
      Some [\<lparr>row_id = [0xFFFD], row_title = [0x4E], row_description = [],
             row_completed = 0, row_createdAt = 0, row_dueDate = None\<rparr>]) \<and>
   deleteTask [0xD801]
     (Some [\<lparr>row_id = [0xFFFD], row_title = [0x61], row_description = [],
             row_completed = 0, row_createdAt = 0, row_dueDate = None\<rparr>])
   = (Inr (), Some [])"
  by (simp add: eval_defs)

section \<open>Updates that the constructor rejects\<close>

text \<open>
  When the read of the existing row succeeds, an update whose merged fields the
  constructor rejects fails with the constructor's error and writes nothing
  (\<open>updateTask_rejects_wholesale\<close>), and no failing update changes the store
  (\<open>updateTask_failure_unchanged\<close>).
\<close>

text \<open>
  Claim C2 at a row whose due date has passed. The row was created at 1767225600000
  (2026-01-01T00:00:00Z) with the due date 1769904000000 (2026-02-01T00:00:00Z); at the
  clock 1772323200000 (2026-03-01T00:00:00Z) the update supplies the empty title. The
  constructor rejects the merged fields with \<open>EmptyTitle\<close>, but \<open>updateTask\<close> fails
  earlier, in its read of the existing row, with the error of that read; the store is
  unchanged.
\<close>

theorem update_overdue_row_empty_title:
  "stored (Some [\<lparr>row_id = [0x74, 0x31], row_title = [0x61], row_description = [],
                  row_completed = 0, row_createdAt = 1767225600000,
                  row_dueDate = Some 1769904000000\<rparr>]) [0x74, 0x31]
     = Some \<lparr>row_id = [0x74, 0x31], row_title = [0x61], row_description = [],
             row_completed = 0, row_createdAt = 1767225600000,
             row_dueDate = Some 1769904000000\<rparr> \<and>
   Task_constructor 1772323200000 [0x74, 0x31] [] [] False (Some 1769904000000)
       1767225600000
     = Inl EmptyTitle \<and>
   updateTask 1772323200000 1772323200000 [0x74, 0x31]
     \<lparr>upd_title = Some [], upd_description = None, upd_completed = None,
      upd_dueDate = None\<rparr>
     (Some [\<lparr>row_id = [0x74, 0x31], row_title = [0x61], row_description = [],
             row_completed = 0, row_createdAt = 1767225600000,
             row_dueDate = Some 1769904000000\<rparr>])
   = (Inl (ParseTaskFailed PastDueDate),
      Some [\<lparr>row_id = [0x74, 0x31], row_title = [0x61], row_description = [],
             row_completed = 0, row_createdAt = 1767225600000,
             row_dueDate = Some 1769904000000\<rparr>])"
  by (simp add: eval_defs)

section \<open>Listing the tasks\<close>

text \<open>
  When every row can be rebuilt, \<open>getTasks\<close> returns one entity for each row, in
  descending order of the ISO text of \<open>createdAt\<close> (newest first for years 0000 to
  9999); on the empty store it returns the empty list.
\<close>

lemma map_rowToTask_fields:
  "map_rowToTask now rs = Inr ts \<Longrightarrow>
     map task_id ts = map row_id rs \<and> map createdAt ts = map row_createdAt rs"
proof (induction rs arbitrary: ts)
  case Nil
  then show ?case by simp
next
  case (Cons r rs)
  then show ?case
    by (auto simp: rowToTask_def split: sum.splits dest: Task_constructor_Inr)
qed

lemma getTasks_empty: "getTasks now (Some []) = Inr []"
  by (simp add: getTasks_def)

lemma getTasks_newest_first:
  assumes "getTasks now (Some rows) = Inr ts"
  shows "sorted (rev (map (\<lambda>t. toISOString (createdAt t)) ts))"
    and "mset (map task_id ts) = mset (map row_id rows)"
proof -
  let ?sorted = "sort_key (\<lambda>r. toISOString (row_createdAt r)) rows"
  from assms obtain us where
    us: "map_rowToTask now ?sorted = Inr us" and ts: "ts = rev us"
    by (auto simp: getTasks_def split: sum.splits)
  note f = map_rowToTask_fields [OF us]
  have "map (\<lambda>t. toISOString (createdAt t)) us = map toISOString (map createdAt us)"
    by simp
  also have "\<dots> = map toISOString (map row_createdAt ?sorted)"
    by (simp only: conjunct2 [OF f])
  also have "\<dots> = map (\<lambda>r. toISOString (row_createdAt r)) ?sorted"
    by simp
  finally have "rev (map (\<lambda>t. toISOString (createdAt t)) ts)
                  = map (\<lambda>r. toISOString (row_createdAt r)) ?sorted"
    by (simp add: ts rev_map)
  then show "sorted (rev (map (\<lambda>t. toISOString (createdAt t)) ts))"
    by simp
  have "mset (map task_id ts) = mset (map task_id us)"
    by (simp add: ts)
  also have "\<dots> = mset (map row_id ?sorted)"
    by (simp only: conjunct1 [OF f])
  also have "\<dots> = mset (map row_id rows)"
    by simp
  finally show "mset (map task_id ts) = mset (map row_id rows)" .
qed

lemma getTasks_succeeds:
  assumes "\<forall>r \<in> set rows. written_row r \<and> validateDueDate now (row_dueDate r) = Inr ()"
  shows "\<exists>ts. getTasks now (Some rows) = Inr ts"
proof -
  have "\<forall>r \<in> set rs. written_row r \<and> validateDueDate now (row_dueDate r) = Inr ()
        \<Longrightarrow> \<exists>ts. map_rowToTask now rs = Inr ts" for rs
    by (induction rs) (auto simp: rowToTask_def Task_constructor_def written_row_def)
  from this [of "sort_key (\<lambda>r. toISOString (row_createdAt r)) rows"] assms show ?thesis
    by (auto simp: getTasks_def)
qed

text \<open>
  Claim C4 at a store that holds a row whose due date has passed. The task is
  constructed at 1767225600000 (2026-01-01T00:00:00Z) with the due date 1769904000000
  (2026-02-01T00:00:00Z) and added to the empty store; at the clock 1772323200000
  (2026-03-01T00:00:00Z) \<open>getTasks\<close> returns no task at all, but the error of the
  constructor.
\<close>

theorem getTasks_overdue_row:
  "Task_constructor 1767225600000 [0x74, 0x31] [0x61] [] False (Some 1769904000000)
       1767225600000
     = Inr \<lparr>task_id = [0x74, 0x31], title = [0x61], description = [], completed = False,
            createdAt = 1767225600000, dueDate = Some 1769904000000\<rparr> \<and>
   addTask \<lparr>task_id = [0x74, 0x31], title = [0x61], description = [], completed = False,
            createdAt = 1767225600000, dueDate = Some 1769904000000\<rparr> (Some [])
     = (Inr (), Some [\<lparr>row_id = [0x74, 0x31], row_title = [0x61], row_description = [],
                       row_completed = 0, row_createdAt = 1767225600000,
                       row_dueDate = Some 1769904000000\<rparr>]) \<and>
   getTasks 1772323200000
       (Some [\<lparr>row_id = [0x74, 0x31], row_title = [0x61], row_description = [],
                       row_completed = 0, row_createdAt = 1767225600000,
                       row_dueDate = Some 1769904000000\<rparr>])
     = Inl (ParseTasksFailed PastDueDate)"
  by (simp add: eval_defs)

section \<open>Copying an entity\<close>

text \<open>
  On the field values, \<open>clone\<close> is the constructor applied to the fields of the
  original. When it returns a copy, the copy has the six field values of the original,
  its two dates are objects of their own, and overwriting the copy's due date object
  changes the copy and leaves every field of the original as it was.
\<close>

lemma clone_fields:
  assumes "refs_ok h t"
  shows "map_sum id (field_values (snd (clone now t h))) (fst (clone now t h)) =
         Task_constructor now (task_id (field_values h t)) (title (field_values h t))
           (description (field_values h t)) (completed (field_values h t)) (dueDate (field_values h t))
           (createdAt (field_values h t))"
  using assms
  by (auto simp: clone_def new_Date_def refs_ok_def field_values_def nth_append
      TaskObject_constructor_def Task_constructor_def
      split: option.splits sum.splits)

lemma clone_independent:
  assumes "refs_ok h t" and "clone now t h = (Inr c, h')"
  shows "field_values h' c = field_values h t"
    and "field_values h' t = field_values h t"
    and "obj_createdAt c \<noteq> obj_createdAt t"
    and "obj_dueDate c = Some r \<Longrightarrow>
           obj_dueDate t \<noteq> Some r \<and> obj_createdAt t \<noteq> r \<and>
           field_values (setTime r v h') t = field_values h t \<and>
           dueDate (field_values (setTime r v h') c) = Some v"
  using assms
  by (auto simp: clone_def new_Date_def refs_ok_def field_values_def nth_append setTime_def
      TaskObject_constructor_def split: option.splits sum.splits)

lemma clone_succeeds_iff:
  "(\<exists>c. fst (clone now t h) = Inr c) \<longleftrightarrow>
     validateTitle (obj_title t) = Inr () \<and> validateId (obj_id t) = Inr () \<and>
     validateDueDate now (map_option (\<lambda>r. h ! r) (obj_dueDate t)) = Inr ()"
  by (auto simp: clone_def new_Date_def TaskObject_constructor_def nth_append
      split: option.splits sum.splits prod.splits)

text \<open>
  Claim C8 at an entity whose due date has passed. The heap holds the task's
  \<open>createdAt\<close>, 1767225600000 (2026-01-01T00:00:00Z), and its due date, 1769904000000
  (2026-02-01T00:00:00Z), which was valid when the task was constructed. At the clock
  1772323200000 (2026-03-01T00:00:00Z) the task is overdue, and \<open>clone\<close> throws
  \<open>PastDueDate\<close> instead of returning a copy.
\<close>

theorem clone_overdue_task:
  "refs_ok [1767225600000, 1769904000000]
     \<lparr>obj_id = [0x74, 0x31], obj_title = [0x61], obj_description = [],
      obj_completed = False, obj_createdAt = 0, obj_dueDate = Some 1\<rparr> \<and>
   TaskObject_constructor 1767225600000 [1767225600000, 1769904000000]
       [0x74, 0x31] [0x61] [] False (Some 1) 0
     = Inr \<lparr>obj_id = [0x74, 0x31], obj_title = [0x61], obj_description = [],
            obj_completed = False, obj_createdAt = 0, obj_dueDate = Some 1\<rparr> \<and>
   isOverdue 1772323200000 (field_values [1767225600000, 1769904000000]
     \<lparr>obj_id = [0x74, 0x31], obj_title = [0x61], obj_description = [],
      obj_completed = False, obj_createdAt = 0, obj_dueDate = Some 1\<rparr>) \<and>
   fst (clone 1772323200000
     \<lparr>obj_id = [0x74, 0x31], obj_title = [0x61], obj_description = [],
      obj_completed = False, obj_createdAt = 0, obj_dueDate = Some 1\<rparr>
     [1767225600000, 1769904000000]) = Inl PastDueDate"
  by (simp add: clone_def new_Date_def refs_ok_def field_values_def isOverdue_def
      TaskObject_constructor_def validateTitle_cases validateId_cases blank_def
      isWhiteSpace_def validateDueDate_def)

end
